theory Spec2Isabelle
  imports Complex_Main
begin

section \<open>EcohydroLib spatial-data utilities: the data model\<close>

text \<open>
  The embedding follows \<^verbatim>\<open>ecohydrolib/spatialdata/utils.py\<close>. A bounding box is the
  Python dict with the keys \<^verbatim>\<open>minX, minY, maxX, maxY, srs\<close>; it becomes a record.
  Python floats are idealised as \<^typ>\<open>real\<close>: the properties verified below are about
  comparisons, case distinctions and the order of checks, not about rounding.
  Every \<^verbatim>\<open>raise\<close> and every failing \<^verbatim>\<open>assert\<close> is a value of \<open>error\<close>, returned
  as \<open>Inl\<close>.
\<close>

record bbox =
  minX :: real
  minY :: real
  maxX :: real
  maxY :: real
  srs :: string

datatype errno = EACCES | ENOTDIR

datatype error =
    AssertionError
  | IndexError
  | ValueError string
  | NameError string
  | AttributeError string
  | IOError errno string
  | NoSectionError string
  | NoOptionError string string
  | Exception string

definition WGS84_EPSG :: int where
  "WGS84_EPSG = 4326"

definition WGS84_EPSG_STR :: string where
  "WGS84_EPSG_STR = ''EPSG:4326''"

section \<open>Coordinate transform helpers\<close>

text \<open>
  \<^verbatim>\<open>zone = int((math.floor((longitude + 180)/6) + 1) % 60)\<close>; Python's \<^verbatim>\<open>%\<close> with
  a positive modulus is the floor remainder, which is \<open>mod\<close> on \<^typ>\<open>int\<close>.
\<close>

definition getUTMZoneFromCoordinates :: "real \<Rightarrow> real \<Rightarrow> int \<times> bool" where
  "getUTMZoneFromCoordinates longitude latitude =
     (let zone = (\<lfloor>(longitude + 180) / 6\<rfloor> + 1) mod 60;
          isNorth = (if latitude > 0 then True else False)
      in (zone, isNorth))"

section \<open>Bounding box engine\<close>

definition isCoordinatePairInBoundingBox :: "bbox \<Rightarrow> real \<times> real \<Rightarrow> error + bool" where
  "isCoordinatePairInBoundingBox b coordinates =
     (if srs b = ''EPSG:4326'' then
        (let lon = fst coordinates; lat = snd coordinates in
         if lon < minX b \<or> lon > maxX b then Inr False
         else if lat < minY b \<or> lat > maxY b then Inr False
         else Inr True)
      else Inl AssertionError)"

definition calculateBoundingBoxCenter :: "bbox \<Rightarrow> real \<times> real" where
  "calculateBoundingBoxCenter b =
     (let x_diff = (maxX b - minX b) / 2;
          y_diff = (maxY b - minY b) / 2;
          longitude = minX b + x_diff;
          latitude = minY b + y_diff
      in (longitude, latitude))"

text \<open>
  \<^verbatim>\<open>bufferBoundingBox\<close> mutates the dict it is given and returns nothing; the model
  returns the dict after the call. The four corrections are applied in the source's
  order, so the last one reads \<^verbatim>\<open>minY\<close> after the second one has updated it:
  \<^verbatim>\<open>
        if minX < -180.0: minX = 360.0 + minX
        if minY < -90.0: minY = -90.0
        if maxX > 180.0: maxX = -360.0 + maxX
        if minY > 90.0: maxY = 90.0
  \<close>
\<close>

definition bufferBoundingBox :: "bbox \<Rightarrow> real \<Rightarrow> bbox" where
  "bufferBoundingBox b buffer =
     (if buffer > 0 then
        (let minX0 = minX b - buffer;
             minY0 = minY b - buffer;
             maxX0 = maxX b + buffer;
             maxY0 = maxY b + buffer;
             minX1 = (if minX0 < - 180 then 360 + minX0 else minX0);
             minY1 = (if minY0 < - 90 then - 90 else minY0);
             maxX1 = (if maxX0 > 180 then - 360 + maxX0 else maxX0);
             maxY1 = (if minY1 > 90 then 90 else maxY0)
         in b\<lparr>minX := minX1, minY := minY1, maxX := maxX1, maxY := maxY1\<rparr>)
      else b)"

text \<open>
  \<^verbatim>\<open>bboxFromString\<close> splits its argument at runs of whitespace (\<^verbatim>\<open>str.split()\<close>) and
  converts the first four tokens with \<^verbatim>\<open>float\<close>. The builtin \<^verbatim>\<open>float\<close> is a parameter
  of the model: it returns the number, or the error the interpreter raises. A missing
  token is an \<^verbatim>\<open>IndexError\<close>. The dict display is evaluated left to right, so the first
  failing item decides the error.
\<close>

definition isspace :: "char \<Rightarrow> bool" where
  "isspace c =
     (c = CHR '' '' \<or> c = CHR 0x09 \<or> c = CHR 0x0A \<or> c = CHR 0x0B \<or> c = CHR 0x0C \<or> c = CHR 0x0D)"

fun split_acc :: "string \<Rightarrow> string \<Rightarrow> string list" where
  "split_acc cur [] = (if cur = [] then [] else [cur])"
| "split_acc cur (c # cs) =
     (if isspace c then (if cur = [] then split_acc [] cs else cur # split_acc [] cs)
      else split_acc (cur @ [c]) cs)"

definition str_split :: "string \<Rightarrow> string list" where
  "str_split s = split_acc [] s"

definition float_item :: "(string \<Rightarrow> error + real) \<Rightarrow> string list \<Rightarrow> nat \<Rightarrow> error + real" where
  "float_item pyfloat toks i = (if i < length toks then pyfloat (toks ! i) else Inl IndexError)"

definition bboxFromString :: "(string \<Rightarrow> error + real) \<Rightarrow> string \<Rightarrow> error + bbox" where
  "bboxFromString pyfloat bboxStr =
     (let toks = str_split bboxStr in
      case float_item pyfloat toks 0 of Inl e \<Rightarrow> Inl e | Inr x0 \<Rightarrow>
      (case float_item pyfloat toks 1 of Inl e \<Rightarrow> Inl e | Inr x1 \<Rightarrow>
      (case float_item pyfloat toks 2 of Inl e \<Rightarrow> Inl e | Inr x2 \<Rightarrow>
      (case float_item pyfloat toks 3 of Inl e \<Rightarrow> Inl e | Inr x3 \<Rightarrow>
         Inr \<lparr>minX = x0, minY = x1, maxX = x2, maxY = x3, srs = ''EPSG:4326''\<rparr>))))"

text \<open>
  The form of a CRS identifier, as the docstring of \<^verbatim>\<open>getEPSGStringForUTMZone\<close> gives it:
  the pattern \<^verbatim>\<open>^EPSG:\d+$\<close>.
\<close>

definition isdigit :: "char \<Rightarrow> bool" where
  "isdigit c = (c \<in> set ''0123456789'')"

definition isEPSGString :: "string \<Rightarrow> bool" where
  "isEPSGString s = (take 5 s = ''EPSG:'' \<and> drop 5 s \<noteq> [] \<and> list_all isdigit (drop 5 s))"

subsection \<open>Area and tiling\<close>

text \<open>
  The geodesic polygon area is computed by \<^verbatim>\<open>pyproj\<close>
  (\<^verbatim>\<open>polygonarea.PolygonArea.Area(geod.G, points, None)\<close>); it is the parameter
  \<open>PolygonArea\<close>, applied to the corner list the source builds. A corner is the pair
  (lat, lon) of the source's \<^verbatim>\<open>{'lat': ..., 'lon': ...}\<close>.
\<close>

definition areaPoints :: "bbox \<Rightarrow> (real \<times> real) list" where
  "areaPoints b =
     [(minY b, minX b), (minY b, maxX b), (maxY b, maxX b), (maxY b, minX b)]"

definition calculateBoundingBoxAreaSqMeters ::
  "((real \<times> real) list \<Rightarrow> real) \<Rightarrow> bbox \<Rightarrow> error + real" where
  "calculateBoundingBoxAreaSqMeters PolygonArea b =
     (if srs b = ''EPSG:4326'' then Inr (PolygonArea (areaPoints b)) else Inl AssertionError)"

text \<open>
  The tiling loops of \<^verbatim>\<open>tileBoundingBox\<close> read three names that are not local to the
  function: \<^verbatim>\<open>geod\<close>, \<^verbatim>\<open>NORTH\<close> and \<^verbatim>\<open>EAST\<close>. The model takes the module's global
  bindings of these names as a record; a name that is not bound raises \<^verbatim>\<open>NameError\<close>
  when the loop body first reads it. \<open>g_geod\<close> is \<^verbatim>\<open>geod.fwd(lons, lats, az, dist)\<close>,
  returning (lon, lat, back azimuth).

  \<open>module_globals\<close> are the bindings of the module as it is written: none of the
  three names is assigned or imported at module level (the \<^verbatim>\<open>geod\<close> of
  \<^verbatim>\<open>calculateBoundingBoxAreaSqMeters\<close> is local to that function, and the star import
  of \<^verbatim>\<open>osgeo.gdalconst\<close> brings GDAL's constants only).

  Both loops may run forever (a step that does not advance), so they take fuel: \<open>None\<close>
  is "fuel exhausted". Writes to \<^verbatim>\<open>sys.stderr\<close> are not modelled.
\<close>

record tile_globals =
  g_geod :: "(real \<Rightarrow> real \<Rightarrow> real \<Rightarrow> real \<Rightarrow> real \<times> real \<times> real) option"
  g_NORTH :: "real option"
  g_EAST :: "real option"

definition module_globals :: tile_globals where
  "module_globals = \<lparr>g_geod = None, g_NORTH = None, g_EAST = None\<rparr>"

fun tileRow ::
  "nat \<Rightarrow> tile_globals \<Rightarrow> real \<Rightarrow> bbox \<Rightarrow> real \<Rightarrow> real \<Rightarrow> real \<Rightarrow> bbox list
     \<Rightarrow> (error + bbox list) option" where
  "tileRow 0 g tileSide b minLat maxLat minLon bboxes = None"
| "tileRow (Suc n) g tileSide b minLat maxLat minLon bboxes =
     (if minLon < maxX b then
        (case g_geod g of
           None \<Rightarrow> Some (Inl (NameError ''global name 'geod' is not defined''))
         | Some fwd \<Rightarrow>
           (case g_EAST g of
              None \<Rightarrow> Some (Inl (NameError ''global name 'EAST' is not defined''))
            | Some EAST \<Rightarrow>
              (case fwd minLon maxLat EAST tileSide of
                 (maxLon, lat', backAz) \<Rightarrow>
                   tileRow n g tileSide b minLat maxLat maxLon
                     (bboxes @ [\<lparr>minX = minLon, minY = minLat, maxX = maxLon, maxY = maxLat,
                                 srs = ''EPSG:4326''\<rparr>]))))
      else Some (Inr bboxes))"

fun tileRows ::
  "nat \<Rightarrow> tile_globals \<Rightarrow> real \<Rightarrow> bbox \<Rightarrow> real \<Rightarrow> bbox list \<Rightarrow> (error + bbox list) option" where
  "tileRows 0 g tileSide b minLat bboxes = None"
| "tileRows (Suc n) g tileSide b minLat bboxes =
     (if minLat < maxY b then
        (case g_geod g of
           None \<Rightarrow> Some (Inl (NameError ''global name 'geod' is not defined''))
         | Some fwd \<Rightarrow>
           (case g_NORTH g of
              None \<Rightarrow> Some (Inl (NameError ''global name 'NORTH' is not defined''))
            | Some NORTH \<Rightarrow>
              (case fwd (minX b) minLat NORTH tileSide of
                 (lon', maxLat, backAz) \<Rightarrow>
                   (case tileRow n g tileSide b minLat maxLat (minX b) bboxes of
                      None \<Rightarrow> None
                    | Some (Inl e) \<Rightarrow> Some (Inl e)
                    | Some (Inr bboxes') \<Rightarrow> tileRows n g tileSide b maxLat bboxes'))))
      else Some (Inr bboxes))"

definition tileBoundingBox ::
  "((real \<times> real) list \<Rightarrow> real) \<Rightarrow> tile_globals \<Rightarrow> nat \<Rightarrow> bbox \<Rightarrow> real
     \<Rightarrow> (error + bbox list) option" where
  "tileBoundingBox PolygonArea g fuel b threshold =
     (if srs b = ''EPSG:4326'' then
        (case calculateBoundingBoxAreaSqMeters PolygonArea b of
           Inl e \<Rightarrow> Some (Inl e)
         | Inr area \<Rightarrow>
             if area \<le> threshold then Some (Inr [b])
             else if threshold < 0 then Some (Inl (ValueError ''math domain error''))
             else tileRows fuel g (sqrt threshold) b (minY b) [])
      else Some (Inl AssertionError))"

section \<open>Vector store adapter\<close>

text \<open>
  An OGR layer, as far as the functions below read it: its name, its spatial reference
  (as the PROJ.4 string and as the \<^verbatim>\<open>AUTHORITY\<close> pair printed \<^verbatim>\<open>"%s:%s"\<close>), its field
  definitions and its features. A feature carries the envelope of its geometry in OGR's
  order (minX, maxX, minY, maxY), which the source indexes by
  \<^verbatim>\<open>SHP_MINX = 0, SHP_MAXX = 1, SHP_MINY = 2, SHP_MAXY = 3\<close>, and the coordinates
  \<^verbatim>\<open>GetX(), GetY()\<close> of a point geometry. A data source is the list of its layers.
  The projection of a coordinate pair (\<^verbatim>\<open>pyproj.transform\<close>) is a parameter, given
  the source and the target reference system.
\<close>

datatype OGRFieldType = OFTInteger | OFTReal | OFTString | OFTDate

record feature =
  envelope :: "real \<times> real \<times> real \<times> real"
  point :: "real \<times> real"

record layer =
  layerName :: string
  srsProj4 :: string
  srsAuthority :: string
  fieldDefns :: "(string \<times> OGRFieldType) list"
  features :: "feature list"

definition envelope_step ::
  "(real \<Rightarrow> real \<Rightarrow> real \<times> real) \<Rightarrow> real \<times> real \<times> real \<times> real \<Rightarrow> feature
     \<Rightarrow> real \<times> real \<times> real \<times> real" where
  "envelope_step tr acc poFeature =
     (case acc of (minX0, minY0, maxX0, maxY0) \<Rightarrow>
      (case envelope poFeature of (env0, env1, env2, env3) \<Rightarrow>
      (case tr env0 env2 of (tmpMinX, tmpMinY) \<Rightarrow>
      (case tr env1 env3 of (tmpMaxX, tmpMaxY) \<Rightarrow>
         (if tmpMinX < minX0 then tmpMinX else minX0,
          if tmpMinY < minY0 then tmpMinY else minY0,
          if tmpMaxX > maxX0 then tmpMaxX else maxX0,
          if tmpMaxY > maxY0 then tmpMaxY else maxY0)))))"

text \<open>
  \<^verbatim>\<open>getBoundingBoxForShapefile\<close> of \<^verbatim>\<open>ecohydrolib\<close>: the running minimum and maximum
  start at \<^verbatim>\<open>minX = 0.0, minY = 90.0, maxX = -180.0, maxY = 0.0\<close>, every feature of the
  first layer updates them, and the result is buffered.
\<close>

definition getBoundingBoxForShapefile ::
  "(string \<Rightarrow> string \<Rightarrow> real \<Rightarrow> real \<Rightarrow> real \<times> real) \<Rightarrow> layer list \<Rightarrow> real \<Rightarrow> error + bbox" where
  "getBoundingBoxForShapefile transform poDS buffer =
     (if buffer \<ge> 0 then
        (case poDS of
           [] \<Rightarrow> Inl AssertionError
         | poLayer # _ \<Rightarrow>
           (case foldl (envelope_step (transform (srsProj4 poLayer) ''EPSG:4326''))
                   (0, 90, - 180, 0) (features poLayer) of
              (minX1, minY1, maxX1, maxY1) \<Rightarrow>
                Inr (bufferBoundingBox
                       \<lparr>minX = minX1, minY = minY1, maxX = maxX1, maxY = maxY1,
                        srs = ''EPSG:4326''\<rparr> buffer)))
      else Inl AssertionError)"

text \<open>
  The older copy in \<^verbatim>\<open>ecohydroworkflowlib\<close> has no buffer and is otherwise the same.
\<close>

definition getBoundingBoxForShapefile_workflowlib ::
  "(string \<Rightarrow> string \<Rightarrow> real \<Rightarrow> real \<Rightarrow> real \<times> real) \<Rightarrow> layer list \<Rightarrow> error + bbox" where
  "getBoundingBoxForShapefile_workflowlib transform poDS =
     (case poDS of
        [] \<Rightarrow> Inl AssertionError
      | poLayer # _ \<Rightarrow>
        (case foldl (envelope_step (transform (srsProj4 poLayer) ''EPSG:4326''))
                (0, 90, - 180, 0) (features poLayer) of
           (minX1, minY1, maxX1, maxY1) \<Rightarrow>
             Inr \<lparr>minX = minX1, minY = minY1, maxX = maxX1, maxY = maxY1,
                  srs = ''EPSG:4326''\<rparr>))"

subsection \<open>Coordinates of points selected by an attribute\<close>

text \<open>
  The type of the identifying attribute is that of the first field whose name is
  \<^verbatim>\<open>pointIDAttr\<close>; it stays \<^verbatim>\<open>ogr.OFTString\<close> when no field has that name.
\<close>

fun idAttrTypeOf :: "(string \<times> OGRFieldType) list \<Rightarrow> string \<Rightarrow> OGRFieldType" where
  "idAttrTypeOf [] pointIDAttr = OFTString"
| "idAttrTypeOf ((nameRef, fieldType) # fieldDefs) pointIDAttr =
     (if pointIDAttr = nameRef then fieldType else idAttrTypeOf fieldDefs pointIDAttr)"

text \<open>
  The query string. The IDs are strings (the docstring: "List of strings representing IDs
  of coordinate pairs"), so \<^verbatim>\<open>%s\<close> inserts them as they are.
  \<^verbatim>\<open>
    assert(len(pointIDs) > 0)
    if ogr.OFTString == idAttrType:
        whereFilter = "%s='%s'" % (pointIDAttr, pointIDs[0])
        for point in pointIDs[1:]:
            whereFilter = "%s and %s=%s" % (whereFilter, pointIDAttr, point)
    else:
        whereFilter = "%s=%s" % (pointIDAttr, pointIDs[0])
        for point in pointIDs[1:]:
            whereFilter = "%s and %s=%s" % (whereFilter, pointIDAttr, point)
  \<close>
\<close>

abbreviation squote :: string where
  "squote \<equiv> [CHR 0x27]"

abbreviation dquote :: string where
  "dquote \<equiv> [CHR 0x22]"

definition whereFilter :: "OGRFieldType \<Rightarrow> string \<Rightarrow> string list \<Rightarrow> error + string" where
  "whereFilter idAttrType pointIDAttr pointIDs =
     (case pointIDs of
        [] \<Rightarrow> Inl AssertionError
      | id0 # rest \<Rightarrow>
          if OFTString = idAttrType then
            Inr (foldl (\<lambda>w p. w @ '' and '' @ pointIDAttr @ ''='' @ p)
                   (pointIDAttr @ ''='' @ squote @ id0 @ squote) rest)
          else
            Inr (foldl (\<lambda>w p. w @ '' and '' @ pointIDAttr @ ''='' @ p)
                   (pointIDAttr @ ''='' @ id0) rest))"

text \<open>
  The whole function. Reading permission, opening the file, finding a layer by its name
  and evaluating the attribute filter on a layer are OGR's and the operating system's,
  and are parameters: \<open>access_R\<close>; \<open>ogr_Open\<close>, which returns the layers of the data
  source, or \<open>None\<close> when OGR cannot open the file (the source then calls
  \<^verbatim>\<open>GetLayerCount\<close> on \<^verbatim>\<open>None\<close>, an \<^verbatim>\<open>AttributeError\<close>); \<open>GetLayerByName\<close>, which
  returns the layer OGR finds for the name, or \<open>None\<close>; and \<open>SetAttributeFilter\<close>, which
  returns the features the filter selects, or \<open>None\<close> when OGR rejects the filter. The
  layer is taken to have a spatial reference.
\<close>

definition getCoordinatesOfPointsFromShapefile ::
  "(string \<Rightarrow> bool) \<Rightarrow> (string \<Rightarrow> layer list option) \<Rightarrow> (layer list \<Rightarrow> string \<Rightarrow> layer option)
     \<Rightarrow> (layer \<Rightarrow> string \<Rightarrow> feature list option)
     \<Rightarrow> (string \<Rightarrow> string \<Rightarrow> real \<Rightarrow> real \<Rightarrow> real \<times> real)
     \<Rightarrow> string \<Rightarrow> string \<Rightarrow> string \<Rightarrow> string list \<Rightarrow> error + (real \<times> real) list" where
  "getCoordinatesOfPointsFromShapefile access_R ogr_Open GetLayerByName SetAttributeFilter
       transform shpFilepath lname pointIDAttr pointIDs =
     (if access_R shpFilepath then
        (case ogr_Open shpFilepath of
           None \<Rightarrow>
             Inl (AttributeError
                    (squote @ ''NoneType'' @ squote @ '' object has no attribute '' @ squote
                     @ ''GetLayerCount'' @ squote))
         | Some poDS \<Rightarrow>
           if length poDS > 0 then
             (case GetLayerByName poDS lname of
                None \<Rightarrow>
                  Inl (Exception (''Layer named '' @ squote @ lname @ squote
                                  @ '' not found in shapefile '' @ shpFilepath))
              | Some poLayer \<Rightarrow>
                (let idAttrType = idAttrTypeOf (fieldDefns poLayer) pointIDAttr in
                 case whereFilter idAttrType pointIDAttr pointIDs of
                   Inl e \<Rightarrow> Inl e
                 | Inr filt \<Rightarrow>
                   (let isWGS84 = (WGS84_EPSG_STR = srsAuthority poLayer) in
                    case SetAttributeFilter poLayer filt of
                      None \<Rightarrow>
                        Inl (Exception (''Feature identified by '' @ dquote @ filt @ dquote
                                        @ '' not found in layer '' @ squote @ lname @ squote
                                        @ '' of shapefile '' @ shpFilepath))
                    | Some selected \<Rightarrow>
                      (let coordinates =
                             map (\<lambda>f. if isWGS84 then point f
                                       else transform (srsProj4 poLayer) ''EPSG:4326''
                                              (fst (point f)) (snd (point f)))
                                 selected
                       in if length coordinates = 0 then
                            Inl (Exception (''No features identified by '' @ dquote @ filt
                                            @ dquote @ '' not found in layer '' @ squote
                                            @ lname @ squote @ '' of shapefile ''
                                            @ shpFilepath))
                          else Inr coordinates))))
           else Inl AssertionError)
      else Inl (IOError EACCES (''Unable to read shapefile '' @ shpFilepath)))"

section \<open>Files, configuration and external tools\<close>

text \<open>
  What the functions ask of the operating system: \<^verbatim>\<open>os.path.isdir\<close>, \<^verbatim>\<open>os.access\<close>
  with \<^verbatim>\<open>W_OK\<close> and \<^verbatim>\<open>X_OK\<close>, \<^verbatim>\<open>os.path.exists\<close>. The state of the world is these
  answers together with the log of the commands handed to \<^verbatim>\<open>os.system\<close>.
  \<^verbatim>\<open>os.path.abspath\<close> depends on the working directory and is a parameter;
  \<^verbatim>\<open>os.path.join\<close> of two components is the POSIX one.
\<close>

record filesystem =
  path_isdir :: "string \<Rightarrow> bool"
  access_W :: "string \<Rightarrow> bool"
  access_X :: "string \<Rightarrow> bool"
  path_exists :: "string \<Rightarrow> bool"

record world =
  files :: filesystem
  invoked :: "string list"

definition path_join :: "string \<Rightarrow> string \<Rightarrow> string" where
  "path_join a p =
     (if take 1 p = ''/'' then p
      else if a = [] then p
      else if last a = CHR ''/'' then a @ p
      else a @ ''/'' @ p)"

text \<open>
  A \<^verbatim>\<open>ConfigParser\<close>: sections of options. \<^verbatim>\<open>config.get\<close> raises \<^verbatim>\<open>NoSectionError\<close>
  or \<^verbatim>\<open>NoOptionError\<close>.
\<close>

type_synonym config = "string \<Rightarrow> (string \<Rightarrow> string option) option"

definition config_get :: "config \<Rightarrow> string \<Rightarrow> string \<Rightarrow> error + string" where
  "config_get cfg section opt =
     (case cfg section of
        None \<Rightarrow> Inl (NoSectionError section)
      | Some options \<Rightarrow>
        (case options opt of
           None \<Rightarrow> Inl (NoOptionError opt section)
         | Some v \<Rightarrow> Inr v))"

text \<open>
  \<^verbatim>\<open>os.system\<close>: the command is logged, and the external tool (a parameter) returns the
  exit status and the file system it leaves.
\<close>

definition os_system ::
  "(string \<Rightarrow> filesystem \<Rightarrow> int \<times> filesystem) \<Rightarrow> string \<Rightarrow> world \<Rightarrow> int \<times> world" where
  "os_system tool cmd w =
     (case tool cmd (files w) of
        (returnCode, fs') \<Rightarrow> (returnCode, \<lparr>files = fs', invoked = invoked w @ [cmd]\<rparr>))"

subsection \<open>Writing a bounding box as a polygon shapefile\<close>

text \<open>
  What \<^verbatim>\<open>writeBboxPolygonToShapefile\<close> hands to OGR: a data source at a path, with one
  polygon layer in the reference system \<^verbatim>\<open>ImportFromEPSG(WGS84_EPSG)\<close>, holding one
  feature whose polygon has one linear ring; the ring is the list of the points added, in
  the order of the \<^verbatim>\<open>AddPoint\<close> calls:
  \<^verbatim>\<open>
    ring.AddPoint(bbox['minX'], bbox['minY'])
    ring.AddPoint(bbox['minX'], bbox['maxY'])
    ring.AddPoint(bbox['maxX'], bbox['maxY'])
    ring.AddPoint(bbox['maxX'], bbox['minY'])
  \<close>
  The status \<^verbatim>\<open>hLayer.CreateFeature\<close> returns is a parameter. The function returns
  the file name; the model returns it with what was written.
\<close>

record polygon_shapefile =
  shp_path :: string
  shp_layer :: string
  shp_epsg :: int
  shp_rings :: "(real \<times> real) list list"

definition writeBboxPolygonToShapefile ::
  "filesystem \<Rightarrow> (string \<Rightarrow> string) \<Rightarrow> int \<Rightarrow> bbox \<Rightarrow> string \<Rightarrow> string
     \<Rightarrow> error + (string \<times> polygon_shapefile)" where
  "writeBboxPolygonToShapefile fs abspath createFeature b outputDir lname =
     (let shpFilename = lname @ ''.'' @ ''shp'' in
      if path_isdir fs outputDir then
        (if access_W fs outputDir then
           (let outputDir' = abspath outputDir;
                shpFilepath = path_join outputDir' shpFilename
            in if path_exists fs shpFilepath then
                 Inl (Exception (''Shapefile '' @ shpFilename @ '' already exists in directory ''
                                 @ outputDir'))
               else
                 (let ring = [(minX b, minY b), (minX b, maxY b),
                              (maxX b, maxY b), (maxX b, minY b)]
                  in if createFeature = 0 then
                       Inr (shpFilename,
                            \<lparr>shp_path = shpFilepath, shp_layer = lname,
                             shp_epsg = WGS84_EPSG, shp_rings = [ring]\<rparr>)
                     else Inl (Exception ''Failed to create shapefile for bounding box'')))
         else Inl (IOError EACCES (''Not allowed to write to output directory '' @ outputDir)))
      else Inl (IOError ENOTDIR (''Output directory '' @ outputDir @ '' is not a directory'')))"

section \<open>Raster store adapter\<close>

definition RASTER_RESAMPLE_METHOD :: "string list" where
  "RASTER_RESAMPLE_METHOD =
     [''near'', ''bilinear'', ''cubic'', ''cubicspline'', ''lanczos'', ''average'', ''mode'']"

text \<open>
  \<^verbatim>\<open>resampleRaster\<close> of \<^verbatim>\<open>ecohydrolib\<close>, with the world before the call as an argument
  and the world after it as the second component of the result. The resolutions are
  taken after \<^verbatim>\<open>float(trX)\<close> and \<^verbatim>\<open>float(trY)\<close>, as reals; \<^verbatim>\<open>%f\<close> formatting is the
  parameter \<open>fmt_f\<close>; \<open>s_srs\<close> is \<open>None\<close> for Python's \<^verbatim>\<open>None\<close>. The checks come in the
  source's order: the configured path of \<^verbatim>\<open>gdalwarp\<close>, its being executable, the output
  directory, then the two resolutions, then the resampling method, and only then whether
  the output exists.
\<close>

definition resampleRaster ::
  "config \<Rightarrow> (string \<Rightarrow> string) \<Rightarrow> (real \<Rightarrow> string) \<Rightarrow> (string \<Rightarrow> filesystem \<Rightarrow> int \<times> filesystem)
     \<Rightarrow> world \<Rightarrow> string \<Rightarrow> string \<Rightarrow> string \<Rightarrow> string option \<Rightarrow> string \<Rightarrow> real \<Rightarrow> real \<Rightarrow> string
     \<Rightarrow> (error + unit) \<times> world" where
  "resampleRaster cfg abspath fmt_f tool w outputDir inRasterFilepath outRasterFilename
       s_srs t_srs trX trY resampleMethod =
     (case config_get cfg ''GDAL/OGR'' ''PATH_OF_GDAL_WARP'' of
        Inl e \<Rightarrow> (Inl e, w)
      | Inr gdalCmdPath0 \<Rightarrow>
        if access_X (files w) gdalCmdPath0 then
          (let gdalCmdPath = abspath gdalCmdPath0 in
           if path_isdir (files w) outputDir then
             (if access_W (files w) outputDir then
                (let outputDir' = abspath outputDir in
                 if trX \<le> 0 then (Inl (ValueError ''trX must be > 0.0''), w)
                 else if trY \<le> 0 then (Inl (ValueError ''trY must be > 0.0''), w)
                 else if resampleMethod \<in> set RASTER_RESAMPLE_METHOD then
                   (let outRasterFilepath = path_join outputDir' outRasterFilename in
                    if path_exists (files w) outRasterFilepath then (Inr (), w)
                    else
                      (let gdalCommand =
                             (case s_srs of
                                None \<Rightarrow>
                                  gdalCmdPath @ '' -q -t_srs '' @ t_srs @ '' -tr '' @ fmt_f trX
                                  @ '' '' @ fmt_f trY @ '' -r '' @ resampleMethod
                                  @ '' -of GTiff -co 'COMPRESS=LZW' '' @ inRasterFilepath
                                  @ '' '' @ outRasterFilepath
                              | Some s \<Rightarrow>
                                  gdalCmdPath @ '' -q -s_srs '' @ s @ '' -t_srs '' @ t_srs
                                  @ '' -tr '' @ fmt_f trX @ '' '' @ fmt_f trY @ '' -r ''
                                  @ resampleMethod @ '' -of GTiff -co 'COMPRESS=LZW' ''
                                  @ inRasterFilepath @ '' '' @ outRasterFilepath)
                       in case os_system tool gdalCommand w of
                            (returnCode, w') \<Rightarrow>
                              if returnCode = 0 then (Inr (), w')
                              else (Inl (Exception (''GDAL command '' @ gdalCommand
                                                    @ '' failed.'')), w')))
                 else (Inl AssertionError, w))
              else (Inl (IOError EACCES (''Not allowed to write to output directory ''
                                         @ outputDir)), w))
           else (Inl (IOError ENOTDIR (''Output directory '' @ outputDir
                                       @ '' is not a directory'')), w))
        else (Inl (IOError EACCES (''The gdalwarp binary at '' @ gdalCmdPath0
                                   @ '' is not executable'')), w))"

section \<open>Predicates used in the statements\<close>

text \<open>
  Two abbreviations of the statements below, not functions of the program: a quadruple
  (minX, minY, maxX, maxY) is ordered when \<open>minX \<le> maxX\<close> and \<open>minY \<le> maxY\<close>; the
  envelope of a feature is ordered under a projection when the projected (minX, minY)
  corner lies south-west of the projected (maxX, maxY) corner.
\<close>

definition ordered4 :: "real \<times> real \<times> real \<times> real \<Rightarrow> bool" where
  "ordered4 q = (case q of (x0, y0, x1, y1) \<Rightarrow> x0 \<le> x1 \<and> y0 \<le> y1)"

definition ordered_envelope :: "(real \<Rightarrow> real \<Rightarrow> real \<times> real) \<Rightarrow> feature \<Rightarrow> bool" where
  "ordered_envelope tr f =
     (case envelope f of (env0, env1, env2, env3) \<Rightarrow>
        fst (tr env0 env2) \<le> fst (tr env1 env3) \<and> snd (tr env0 env2) \<le> snd (tr env1 env3))"

section \<open>Verified properties\<close>

subsection \<open>Auxiliary facts\<close>

lemma envelope_step_keeps: "ordered4 acc \<Longrightarrow> ordered4 (envelope_step tr acc f)"
  by (auto simp: ordered4_def envelope_step_def split: prod.splits)

lemma envelope_step_makes: "ordered_envelope tr f \<Longrightarrow> ordered4 (envelope_step tr acc f)"
  by (auto simp: ordered4_def ordered_envelope_def envelope_step_def split: prod.splits)

lemma foldl_envelope_keeps:
  "ordered4 acc \<Longrightarrow> ordered4 (foldl (envelope_step tr) acc fs)"
  by (induction fs arbitrary: acc) (simp_all add: envelope_step_keeps)

lemma foldl_envelope_makes:
  "\<exists>f \<in> set fs. ordered_envelope tr f \<Longrightarrow> ordered4 (foldl (envelope_step tr) acc fs)"
proof (induction fs arbitrary: acc)
  case Nil
  then show ?case by simp
next
  case (Cons f fs)
  show ?case
  proof (cases "ordered_envelope tr f")
    case True
    then show ?thesis
      by (simp add: envelope_step_makes foldl_envelope_keeps)
  next
    case False
    with Cons.prems have "\<exists>f \<in> set fs. ordered_envelope tr f" by simp
    then show ?thesis by (simp add: Cons.IH)
  qed
qed

lemma bboxFromString_fields:
  assumes "bboxFromString pyfloat s = Inr r"
  shows "srs r = ''EPSG:4326''"
    and "float_item pyfloat (str_split s) 0 = Inr (minX r)"
    and "float_item pyfloat (str_split s) 1 = Inr (minY r)"
    and "float_item pyfloat (str_split s) 2 = Inr (maxX r)"
    and "float_item pyfloat (str_split s) 3 = Inr (maxY r)"
  using assms by (auto simp: bboxFromString_def Let_def split: sum.splits)

lemma isEPSGString_WGS84: "isEPSGString ''EPSG:4326''"
  by (simp add: isEPSGString_def isdigit_def)

lemma getBoundingBoxForShapefile_srs:
  assumes "getBoundingBoxForShapefile tr ds d = Inr r"
  shows "srs r = ''EPSG:4326''"
  using assms
  by (auto simp: getBoundingBoxForShapefile_def bufferBoundingBox_def Let_def
           split: if_splits list.splits prod.splits)

lemma bufferBoundingBox_srs: "srs (bufferBoundingBox b d) = srs b"
  by (simp add: bufferBoundingBox_def Let_def)

lemma bufferBoundingBox_ordered:
  assumes "0 \<le> d" and "minX b \<le> maxX b" and "minY b \<le> maxY b"
    and "- 90 \<le> minY b" and "maxY b \<le> 90"
    and "- 180 \<le> minX b - d" and "maxX b + d \<le> 180"
  shows "minX (bufferBoundingBox b d) \<le> maxX (bufferBoundingBox b d)"
    and "minY (bufferBoundingBox b d) \<le> maxY (bufferBoundingBox b d)"
  using assms by (auto simp: bufferBoundingBox_def Let_def)

lemma getBoundingBoxForShapefile_ordered:
  assumes "\<exists>f \<in> set (features l). ordered_envelope (tr (srsProj4 l) ''EPSG:4326'') f"
  shows "\<exists>r. getBoundingBoxForShapefile tr (l # ls) 0 = Inr r
             \<and> minX r \<le> maxX r \<and> minY r \<le> maxY r"
proof -
  obtain x0 y0 x1 y1 where q:
    "foldl (envelope_step (tr (srsProj4 l) ''EPSG:4326'')) (0, 90, - 180, 0) (features l)
       = (x0, y0, x1, y1)"
    by (metis prod_cases4)
  have "ordered4 (x0, y0, x1, y1)"
    using foldl_envelope_makes [OF assms, of "(0, 90, - 180, 0)"] q by simp
  then show ?thesis
    by (simp add: getBoundingBoxForShapefile_def q bufferBoundingBox_def ordered4_def)
qed

lemma tileBoundingBox_no_tiling:
  assumes "srs b = ''EPSG:4326''" and "PolygonArea (areaPoints b) \<le> threshold"
  shows "tileBoundingBox PolygonArea g fuel b threshold = Some (Inr [b])"
  using assms by (simp add: tileBoundingBox_def calculateBoundingBoxAreaSqMeters_def)

lemma resampleRaster_invalid_resolution_error:
  assumes "trX \<le> 0 \<or> trY \<le> 0"
  shows "fst (resampleRaster cfg abspath fmt_f tool w outputDir inRasterFilepath
                outRasterFilename s_srs t_srs trX trY resampleMethod)
         = (case config_get cfg ''GDAL/OGR'' ''PATH_OF_GDAL_WARP'' of
              Inl e \<Rightarrow> Inl e
            | Inr p \<Rightarrow>
                if access_X (files w) p then
                  (if path_isdir (files w) outputDir then
                     (if access_W (files w) outputDir then
                        Inl (ValueError (if trX \<le> 0 then ''trX must be > 0.0''
                                         else ''trY must be > 0.0''))
                      else Inl (IOError EACCES (''Not allowed to write to output directory ''
                                                @ outputDir)))
                   else Inl (IOError ENOTDIR (''Output directory '' @ outputDir
                                              @ '' is not a directory'')))
                else Inl (IOError EACCES (''The gdalwarp binary at '' @ p
                                          @ '' is not executable'')))"
  using assms by (auto simp: resampleRaster_def Let_def split: sum.splits)

lemma resampleRaster_invalid_resolution_world:
  assumes "trX \<le> 0 \<or> trY \<le> 0"
  shows "snd (resampleRaster cfg abspath fmt_f tool w outputDir inRasterFilepath
                outRasterFilename s_srs t_srs trX trY resampleMethod) = w"
  using assms by (auto simp: resampleRaster_def Let_def split: sum.splits)

subsection \<open>The claims\<close>

text \<open>
  C9. For every valid WGS84 bounding box (\<open>minX \<le> maxX\<close>, \<open>minY \<le> maxY\<close>,
  \<open>srs = 'EPSG:4326'\<close>) the containment test applied to the box and its centre returns
  True, and the centre is the midpoint of each axis.
\<close>

theorem center_in_bbox:
  assumes "minX b \<le> maxX b" and "minY b \<le> maxY b" and "srs b = ''EPSG:4326''"
  shows "isCoordinatePairInBoundingBox b (calculateBoundingBoxCenter b) = Inr True
         \<and> calculateBoundingBoxCenter b = ((minX b + maxX b) / 2, (minY b + maxY b) / 2)"
proof -
  have mid: "calculateBoundingBoxCenter b = ((minX b + maxX b) / 2, (minY b + maxY b) / 2)"
    by (simp add: calculateBoundingBoxCenter_def Let_def field_simps)
  have "minX b \<le> (minX b + maxX b) / 2" "(minX b + maxX b) / 2 \<le> maxX b"
       "minY b \<le> (minY b + maxY b) / 2" "(minY b + maxY b) / 2 \<le> maxY b"
    using assms(1,2) by simp_all
  then have "isCoordinatePairInBoundingBox b ((minX b + maxX b) / 2, (minY b + maxY b) / 2)
             = Inr True"
    using assms(3) by (simp add: isCoordinatePairInBoundingBox_def Let_def not_less)
  with mid show ?thesis by simp
qed

theorem center_in_bbox_witness:
  "isCoordinatePairInBoundingBox
     \<lparr>minX = - 2, minY = 1, maxX = 4, maxY = 3, srs = ''EPSG:4326''\<rparr>
     (calculateBoundingBoxCenter \<lparr>minX = - 2, minY = 1, maxX = 4, maxY = 3, srs = ''EPSG:4326''\<rparr>)
     = Inr True
   \<and> calculateBoundingBoxCenter \<lparr>minX = - 2, minY = 1, maxX = 4, maxY = 3, srs = ''EPSG:4326''\<rparr>
     = (1, 2)"
  using center_in_bbox [of "\<lparr>minX = - 2, minY = 1, maxX = 4, maxY = 3, srs = ''EPSG:4326''\<rparr>"]
  by auto

text \<open>
  C10. Containment is closed at the boundary: for a valid WGS84 box the test returns
  exactly whether \<open>minX \<le> lon \<le> maxX\<close> and \<open>minY \<le> lat \<le> maxY\<close>. So a pair on an
  edge of the box (longitude equal to \<open>minX\<close> or \<open>maxX\<close> with the latitude in range, or
  latitude equal to \<open>minY\<close> or \<open>maxY\<close> with the longitude in range) is inside, and
  False is returned only for a pair strictly outside on some axis.
\<close>

theorem containment_closed_boundary:
  assumes "srs b = ''EPSG:4326''" and "minX b \<le> maxX b" and "minY b \<le> maxY b"
  shows "isCoordinatePairInBoundingBox b (lon, lat)
           = Inr (minX b \<le> lon \<and> lon \<le> maxX b \<and> minY b \<le> lat \<and> lat \<le> maxY b)
         \<and> ((lon = minX b \<or> lon = maxX b) \<and> minY b \<le> lat \<and> lat \<le> maxY b
              \<longrightarrow> isCoordinatePairInBoundingBox b (lon, lat) = Inr True)
         \<and> ((lat = minY b \<or> lat = maxY b) \<and> minX b \<le> lon \<and> lon \<le> maxX b
              \<longrightarrow> isCoordinatePairInBoundingBox b (lon, lat) = Inr True)
         \<and> (isCoordinatePairInBoundingBox b (lon, lat) = Inr False
              \<longleftrightarrow> lon < minX b \<or> lon > maxX b \<or> lat < minY b \<or> lat > maxY b)"
proof -
  have eq: "isCoordinatePairInBoundingBox b (lon, lat)
              = Inr (minX b \<le> lon \<and> lon \<le> maxX b \<and> minY b \<le> lat \<and> lat \<le> maxY b)"
    using assms(1) by (auto simp: isCoordinatePairInBoundingBox_def Let_def)
  show ?thesis
    unfolding eq using assms(2,3) by auto
qed

theorem containment_closed_boundary_witness:
  "isCoordinatePairInBoundingBox
     \<lparr>minX = - 2, minY = 1, maxX = 4, maxY = 3, srs = ''EPSG:4326''\<rparr> (- 2, 3) = Inr True
   \<and> isCoordinatePairInBoundingBox
     \<lparr>minX = - 2, minY = 1, maxX = 4, maxY = 3, srs = ''EPSG:4326''\<rparr> (4, 1) = Inr True"
  using containment_closed_boundary
          [of "\<lparr>minX = - 2, minY = 1, maxX = 4, maxY = 3, srs = ''EPSG:4326''\<rparr>" "- 2" 3]
        containment_closed_boundary
          [of "\<lparr>minX = - 2, minY = 1, maxX = 4, maxY = 3, srs = ''EPSG:4326''\<rparr>" 4 1]
  by simp

text \<open>
  The three corrections of \<^verbatim>\<open>bufferBoundingBox\<close> that behave as described: for
  \<open>d > 0\<close> the west edge is \<open>minX - d\<close>, wrapped to \<open>360 + (minX - d)\<close> below \<open>-180\<close>;
  the east edge is \<open>maxX + d\<close>, wrapped to \<open>(maxX + d) - 360\<close> above \<open>180\<close>; the south
  edge is \<open>minY - d\<close>, clamped to \<open>-90\<close>. The north edge is \<open>maxY + d\<close> unless the
  (already clamped) south edge exceeds \<open>90\<close>.
\<close>

lemma bufferBoundingBox_edges:
  assumes "d > 0"
  shows "minX (bufferBoundingBox b d)
           = (if minX b - d < - 180 then 360 + (minX b - d) else minX b - d)"
    and "maxX (bufferBoundingBox b d)
           = (if maxX b + d > 180 then (maxX b + d) - 360 else maxX b + d)"
    and "minY (bufferBoundingBox b d) = (if minY b - d < - 90 then - 90 else minY b - d)"
    and "maxY (bufferBoundingBox b d) = (if minY b - d > 90 then 90 else maxY b + d)"
    and "srs (bufferBoundingBox b d) = srs b"
  using assms by (simp_all add: bufferBoundingBox_def Let_def)

lemma bufferBoundingBox_zero: "bufferBoundingBox b 0 = b"
  by (simp add: bufferBoundingBox_def)

text \<open>
  C6. The upper latitude clamp is guarded by \<^verbatim>\<open>minY > 90.0\<close>, not by
  \<^verbatim>\<open>maxY > 90.0\<close>: buffering the box \<open>(0, 0, 1, 89.5)\<close> by one degree leaves the north
  edge at \<open>90.5\<close>, above \<open>90\<close> and not clamped.
\<close>

theorem bufferBoundingBox_north_edge_not_clamped:
  "bufferBoundingBox \<lparr>minX = 0, minY = 0, maxX = 1, maxY = 89.5, srs = ''EPSG:4326''\<rparr> 1
     = \<lparr>minX = - 1, minY = - 1, maxX = 2, maxY = 90.5, srs = ''EPSG:4326''\<rparr>"
  by (simp add: bufferBoundingBox_def Let_def)

text \<open>
  What \<^verbatim>\<open>getUTMZoneFromCoordinates\<close> returns on \<open>[-180, 180]\<close>: a number in
  \<open>0..59\<close>; it is \<open>\<lfloor>(lon + 180) / 6\<rfloor> + 1\<close> west of \<open>174\<close>, \<open>0\<close> on \<open>[174, 180)\<close> and \<open>1\<close>
  at \<open>180\<close>. The hemisphere flag is \<open>latitude > 0\<close>.
  These are statements about real longitudes; at a double next to a multiple of six
  the rounded quotient can fall on the other side of the zone boundary.
\<close>

lemma getUTMZoneFromCoordinates_range:
  assumes "- 180 \<le> lon" and "lon \<le> 180"
  shows "0 \<le> fst (getUTMZoneFromCoordinates lon lat)"
    and "fst (getUTMZoneFromCoordinates lon lat) \<le> 59"
    and "snd (getUTMZoneFromCoordinates lon lat) = (lat > 0)"
  by (simp_all add: getUTMZoneFromCoordinates_def Let_def)

lemma getUTMZoneFromCoordinates_west_of_174:
  assumes "- 180 \<le> lon" and "lon < 174"
  shows "fst (getUTMZoneFromCoordinates lon lat) = \<lfloor>(lon + 180) / 6\<rfloor> + 1"
    and "1 \<le> fst (getUTMZoneFromCoordinates lon lat)"
    and "fst (getUTMZoneFromCoordinates lon lat) \<le> 59"
proof -
  have lo: "0 \<le> \<lfloor>(lon + 180) / 6\<rfloor>"
    using assms(1) by simp
  have "(lon + 180) / 6 < 59"
    using assms(2) by simp
  then have hi: "\<lfloor>(lon + 180) / 6\<rfloor> < 59"
    by (simp add: floor_less_iff)
  have z: "fst (getUTMZoneFromCoordinates lon lat) = (\<lfloor>(lon + 180) / 6\<rfloor> + 1) mod 60"
    by (simp add: getUTMZoneFromCoordinates_def Let_def)
  show "fst (getUTMZoneFromCoordinates lon lat) = \<lfloor>(lon + 180) / 6\<rfloor> + 1"
    unfolding z using lo hi by simp
  then show "1 \<le> fst (getUTMZoneFromCoordinates lon lat)"
    and "fst (getUTMZoneFromCoordinates lon lat) \<le> 59"
    using lo hi by simp_all
qed

lemma getUTMZoneFromCoordinates_zone_60:
  assumes "174 \<le> lon" and "lon < 180"
  shows "fst (getUTMZoneFromCoordinates lon lat) = 0"
proof -
  have "59 \<le> (lon + 180) / 6" and "(lon + 180) / 6 < 60"
    using assms by simp_all
  then have "\<lfloor>(lon + 180) / 6\<rfloor> = 59"
    by (simp add: floor_eq_iff)
  then show ?thesis
    by (simp add: getUTMZoneFromCoordinates_def Let_def)
qed

text \<open>
  C7. On the easternmost zone the result leaves \<open>1..60\<close>: at longitude \<open>177\<close>
  (UTM zone 60) and latitude \<open>10\<close> the function returns zone \<open>0\<close>, northern.
\<close>

theorem getUTMZoneFromCoordinates_zone_zero:
  "getUTMZoneFromCoordinates 177 10 = (0, True)"
  by (simp add: getUTMZoneFromCoordinates_def Let_def)

text \<open>
  C3. With a string-typed ID attribute only the first requested ID is quoted: for the
  IDs \<open>A1\<close> and \<open>B2\<close> the filter is \<^verbatim>\<open>gage_id='A1' and gage_id=B2\<close>, with the second
  value bare.
\<close>

theorem whereFilter_second_id_unquoted:
  "whereFilter OFTString ''gage_id'' [''A1'', ''B2''] = Inr ''gage_id='A1' and gage_id=B2''"
  by (simp add: whereFilter_def)

text \<open>
  The parts of the filter that are as described: it is a chain of \<open>attr=value\<close> joined
  by \<open>and\<close>, over all IDs in order; a single string-typed ID is quoted, and values of
  an attribute of any other type are never quoted.
\<close>

lemma whereFilter_single_string_id:
  "whereFilter OFTString a [p] = Inr (a @ ''='' @ squote @ p @ squote)"
  by (simp add: whereFilter_def)

lemma whereFilter_not_string:
  assumes "idAttrType \<noteq> OFTString"
  shows "whereFilter idAttrType a (p # ps)
         = Inr (foldl (\<lambda>w q. w @ '' and '' @ a @ ''='' @ q) (a @ ''='' @ p) ps)"
  using assms by (auto simp: whereFilter_def)

lemma whereFilter_empty: "whereFilter idAttrType a [] = Inl AssertionError"
  by (simp add: whereFilter_def)

text \<open>
  C5. In the module as it is written, tiling a box whose area exceeds the threshold
  raises \<^verbatim>\<open>NameError\<close> at the first step north, because \<^verbatim>\<open>geod\<close> is not bound: here a
  box of two by two degrees at the equator (about \<open>4.9e10\<close> square metres) and a
  threshold of one square kilometre.
\<close>

theorem tileBoundingBox_module_raises:
  "tileBoundingBox (\<lambda>points. 49000000000) module_globals 10
     \<lparr>minX = - 1, minY = - 1, maxX = 1, maxY = 1, srs = ''EPSG:4326''\<rparr> 1000000
   = Some (Inl (NameError ''global name 'geod' is not defined''))"
  by (simp add: tileBoundingBox_def calculateBoundingBoxAreaSqMeters_def module_globals_def
        eval_nat_numeral)

text \<open>
  The same for every area function, every box with \<open>minY < maxY\<close> and every threshold
  \<open>0 \<le> threshold < area\<close>, as soon as there is fuel for one iteration.
\<close>

lemma tileBoundingBox_module_NameError:
  assumes "srs b = ''EPSG:4326''" and "threshold < PolygonArea (areaPoints b)"
    and "0 \<le> threshold" and "minY b < maxY b"
  shows "tileBoundingBox PolygonArea module_globals (Suc n) b threshold
         = Some (Inl (NameError ''global name 'geod' is not defined''))"
  using assms
  by (simp add: tileBoundingBox_def calculateBoundingBoxAreaSqMeters_def module_globals_def)

text \<open>
  C4. When the first layer has no feature, no error is raised: the result is the box of
  the initial values \<open>minX = 0, minY = 90, maxX = -180, maxY = 0\<close> with
  \<open>srs = 'EPSG:4326'\<close>, buffered by the requested amount (for a buffer \<open>\<ge> 0\<close>); the
  copy in \<^verbatim>\<open>ecohydroworkflowlib\<close> returns that box as it is.
\<close>

theorem getBoundingBoxForShapefile_no_features:
  assumes "features poLayer = []" and "0 \<le> buffer"
  shows "getBoundingBoxForShapefile transform (poLayer # rest) buffer
           = Inr (bufferBoundingBox
                    \<lparr>minX = 0, minY = 90, maxX = - 180, maxY = 0, srs = ''EPSG:4326''\<rparr> buffer)
         \<and> getBoundingBoxForShapefile_workflowlib transform (poLayer # rest)
           = Inr \<lparr>minX = 0, minY = 90, maxX = - 180, maxY = 0, srs = ''EPSG:4326''\<rparr>"
  using assms
  by (simp add: getBoundingBoxForShapefile_def getBoundingBoxForShapefile_workflowlib_def)

theorem getBoundingBoxForShapefile_no_features_witness:
  "getBoundingBoxForShapefile (\<lambda>s t x y. (x, y))
     [\<lparr>layerName = ''catchment'', srsProj4 = ''+proj=longlat +datum=WGS84 +no_defs'',
       srsAuthority = ''EPSG:4326'', fieldDefns = [], features = []\<rparr>] (1 / 2)
   = Inr \<lparr>minX = - 1 / 2, minY = 179 / 2, maxX = - 359 / 2, maxY = 1 / 2, srs = ''EPSG:4326''\<rparr>
   \<and> getBoundingBoxForShapefile_workflowlib (\<lambda>s t x y. (x, y))
     [\<lparr>layerName = ''catchment'', srsProj4 = ''+proj=longlat +datum=WGS84 +no_defs'',
       srsAuthority = ''EPSG:4326'', fieldDefns = [], features = []\<rparr>]
   = Inr \<lparr>minX = 0, minY = 90, maxX = - 180, maxY = 0, srs = ''EPSG:4326''\<rparr>"
  using getBoundingBoxForShapefile_no_features
          [of "\<lparr>layerName = ''catchment'', srsProj4 = ''+proj=longlat +datum=WGS84 +no_defs'',
                srsAuthority = ''EPSG:4326'', fieldDefns = [], features = []\<rparr>"
              "1 / 2" "\<lambda>s t x y. (x, y)" "[]"]
  by (simp add: bufferBoundingBox_def Let_def)

text \<open>
  C4, the claim as stated fails: a shapefile whose only layer is empty, with no buffer,
  yields a bounding box and no error.
\<close>

theorem getBoundingBoxForShapefile_empty_layer_counterexample:
  "getBoundingBoxForShapefile (\<lambda>s t x y. (x, y))
     [\<lparr>layerName = ''catchment'', srsProj4 = ''+proj=longlat +datum=WGS84 +no_defs'',
       srsAuthority = ''EPSG:4326'', fieldDefns = [], features = []\<rparr>] 0
   = Inr \<lparr>minX = 0, minY = 90, maxX = - 180, maxY = 0, srs = ''EPSG:4326''\<rparr>"
  by (simp add: getBoundingBoxForShapefile_def bufferBoundingBox_def)

text \<open>
  C2. Whenever \<^verbatim>\<open>writeBboxPolygonToShapefile\<close> writes (the output directory is a
  writable directory, the shapefile does not exist yet and the feature is created), it
  writes one polygon ring of four vertices in the order SW \<open>(minX, minY)\<close>, NW
  \<open>(minX, maxY)\<close>, NE \<open>(maxX, maxY)\<close>, SE \<open>(maxX, minY)\<close>, in the reference system
  EPSG:4326, and it writes in no other case. The corners of the geodesic area
  computation are, as (x, y) pairs, SW, SE, NE, NW: the ring is that cycle walked the
  other way round from the same corner.
\<close>

theorem writeBboxPolygonToShapefile_ring:
  "(writeBboxPolygonToShapefile fs abspath createFeature b outputDir lname = Inr written)
     = (path_isdir fs outputDir \<and> access_W fs outputDir
        \<and> \<not> path_exists fs (path_join (abspath outputDir) (lname @ ''.shp''))
        \<and> createFeature = 0
        \<and> written =
            (lname @ ''.shp'',
             \<lparr>shp_path = path_join (abspath outputDir) (lname @ ''.shp''),
              shp_layer = lname, shp_epsg = 4326,
              shp_rings = [[(minX b, minY b), (minX b, maxY b),
                            (maxX b, maxY b), (maxX b, minY b)]]\<rparr>))
   \<and> map prod.swap (areaPoints b)
       = [(minX b, minY b), (maxX b, minY b), (maxX b, maxY b), (minX b, maxY b)]
   \<and> [(minX b, minY b), (minX b, maxY b), (maxX b, maxY b), (maxX b, minY b)]
       = hd (map prod.swap (areaPoints b)) # rev (tl (map prod.swap (areaPoints b)))"
  by (auto simp: writeBboxPolygonToShapefile_def Let_def WGS84_EPSG_def areaPoints_def)

theorem writeBboxPolygonToShapefile_ring_witness:
  "writeBboxPolygonToShapefile
     \<lparr>path_isdir = (\<lambda>p. True), access_W = (\<lambda>p. True), access_X = (\<lambda>p. True),
      path_exists = (\<lambda>p. False)\<rparr>
     (\<lambda>p. p) 0 \<lparr>minX = 0, minY = 0, maxX = 1, maxY = 2, srs = ''EPSG:4326''\<rparr> ''/tmp'' ''bbox''
   = Inr (''bbox.shp'',
          \<lparr>shp_path = ''/tmp/bbox.shp'', shp_layer = ''bbox'', shp_epsg = 4326,
           shp_rings = [[(0, 0), (0, 2), (1, 2), (1, 0)]]\<rparr>)"
  by (rule iffD2 [OF conjunct1 [OF writeBboxPolygonToShapefile_ring]])
     (simp add: path_join_def)

text \<open>
  C2, the claim as stated fails: for the box \<open>(0, 0, 1, 2)\<close> the ring written is
  \<open>(0,0), (0,2), (1,2), (1,0)\<close>, which is not the order SW, SE, NE, NW
  \<open>(0,0), (1,0), (1,2), (0,2)\<close> of the area computation.
\<close>

theorem writeBboxPolygonToShapefile_ring_counterexample:
  "writeBboxPolygonToShapefile
     \<lparr>path_isdir = (\<lambda>p. True), access_W = (\<lambda>p. True), access_X = (\<lambda>p. True),
      path_exists = (\<lambda>p. False)\<rparr>
     (\<lambda>p. p) 0 \<lparr>minX = 0, minY = 0, maxX = 1, maxY = 2, srs = ''EPSG:4326''\<rparr> ''/tmp'' ''bbox''
   = Inr (''bbox.shp'',
          \<lparr>shp_path = ''/tmp/bbox.shp'', shp_layer = ''bbox'', shp_epsg = 4326,
           shp_rings = [[(0, 0), (0, 2), (1, 2), (1, 0)]]\<rparr>)
   \<and> [(0, 0), (0, 2), (1, 2), (1, 0)] \<noteq> [(0 :: real, 0 :: real), (1, 0), (1, 2), (0, 2)]
   \<and> map prod.swap (areaPoints \<lparr>minX = 0, minY = 0, maxX = 1, maxY = 2, srs = ''EPSG:4326''\<rparr>)
       = [(0, 0), (1, 0), (1, 2), (0, 2)]"
  by (simp add: writeBboxPolygonToShapefile_def path_join_def WGS84_EPSG_def Let_def
        areaPoints_def)

text \<open>
  C8. A call of \<^verbatim>\<open>resampleRaster\<close> with \<open>trX \<le> 0\<close> or \<open>trY \<le> 0\<close> ends in an error and
  leaves the world as it was: no command is handed to \<^verbatim>\<open>os.system\<close> and no file is
  created or changed, whether or not the output file exists. The error is the
  \<^verbatim>\<open>ValueError\<close> of the resolution check whenever the earlier checks pass (the
  configuration names the \<^verbatim>\<open>gdalwarp\<close> binary, the binary is executable, the output
  directory is a writable directory). Otherwise it is the error of the first earlier
  check that fails, in the source's order: \<^verbatim>\<open>NoSectionError\<close> or \<^verbatim>\<open>NoOptionError\<close> of
  \<^verbatim>\<open>config.get\<close>, then \<^verbatim>\<open>IOError(EACCES)\<close> for a binary that is not executable, then
  \<^verbatim>\<open>IOError(ENOTDIR)\<close> for an output directory that is no directory, then
  \<^verbatim>\<open>IOError(EACCES)\<close> for one that is not writable.
\<close>

theorem resampleRaster_invalid_resolution:
  assumes "trX \<le> 0 \<or> trY \<le> 0"
  shows "snd (resampleRaster cfg abspath fmt_f tool w outputDir inRasterFilepath
                outRasterFilename s_srs t_srs trX trY resampleMethod) = w
         \<and> (\<exists>e. fst (resampleRaster cfg abspath fmt_f tool w outputDir inRasterFilepath
                        outRasterFilename s_srs t_srs trX trY resampleMethod) = Inl e)
         \<and> (config_get cfg ''GDAL/OGR'' ''PATH_OF_GDAL_WARP'' = Inr gdalCmdPath
              \<and> access_X (files w) gdalCmdPath
              \<and> path_isdir (files w) outputDir \<and> access_W (files w) outputDir
            \<longrightarrow> fst (resampleRaster cfg abspath fmt_f tool w outputDir inRasterFilepath
                        outRasterFilename s_srs t_srs trX trY resampleMethod)
                  = Inl (ValueError (if trX \<le> 0 then ''trX must be > 0.0''
                                     else ''trY must be > 0.0'')))
         \<and> fst (resampleRaster cfg abspath fmt_f tool w outputDir inRasterFilepath
                  outRasterFilename s_srs t_srs trX trY resampleMethod)
             = (case config_get cfg ''GDAL/OGR'' ''PATH_OF_GDAL_WARP'' of
                  Inl e \<Rightarrow> Inl e
                | Inr p \<Rightarrow>
                    if access_X (files w) p then
                      (if path_isdir (files w) outputDir then
                         (if access_W (files w) outputDir then
                            Inl (ValueError (if trX \<le> 0 then ''trX must be > 0.0''
                                             else ''trY must be > 0.0''))
                          else Inl (IOError EACCES
                                      (''Not allowed to write to output directory ''
                                       @ outputDir)))
                       else Inl (IOError ENOTDIR (''Output directory '' @ outputDir
                                                  @ '' is not a directory'')))
                    else Inl (IOError EACCES (''The gdalwarp binary at '' @ p
                                              @ '' is not executable'')))"
proof -
  note err = resampleRaster_invalid_resolution_error
               [OF assms, of cfg abspath fmt_f tool w outputDir inRasterFilepath
                  outRasterFilename s_srs t_srs resampleMethod]
  note world = resampleRaster_invalid_resolution_world
                 [OF assms, of cfg abspath fmt_f tool w outputDir inRasterFilepath
                    outRasterFilename s_srs t_srs resampleMethod]
  have ex: "\<exists>e. fst (resampleRaster cfg abspath fmt_f tool w outputDir inRasterFilepath
                       outRasterFilename s_srs t_srs trX trY resampleMethod) = Inl e"
    unfolding err by (simp split: sum.splits)
  have ok: "config_get cfg ''GDAL/OGR'' ''PATH_OF_GDAL_WARP'' = Inr gdalCmdPath
              \<and> access_X (files w) gdalCmdPath
              \<and> path_isdir (files w) outputDir \<and> access_W (files w) outputDir
            \<longrightarrow> fst (resampleRaster cfg abspath fmt_f tool w outputDir inRasterFilepath
                        outRasterFilename s_srs t_srs trX trY resampleMethod)
                  = Inl (ValueError (if trX \<le> 0 then ''trX must be > 0.0''
                                     else ''trY must be > 0.0''))"
    unfolding err by simp
  from world ex ok err show ?thesis
    by (intro conjI)
qed

theorem resampleRaster_invalid_resolution_witness:
  "resampleRaster
     (\<lambda>s. if s = ''GDAL/OGR''
           then Some (\<lambda>opt. if opt = ''PATH_OF_GDAL_WARP'' then Some ''/usr/bin/gdalwarp'' else None)
           else None)
     (\<lambda>p. p) (\<lambda>x. ''0.000000'') (\<lambda>cmd fs. (0, fs))
     \<lparr>files = \<lparr>path_isdir = (\<lambda>p. True), access_W = (\<lambda>p. True), access_X = (\<lambda>p. True),
               path_exists = (\<lambda>p. True)\<rparr>, invoked = []\<rparr>
     ''/tmp'' ''/tmp/in.tif'' ''out.tif'' None ''EPSG:26918'' 0 10 ''bilinear''
   = (Inl (ValueError ''trX must be > 0.0''),
      \<lparr>files = \<lparr>path_isdir = (\<lambda>p. True), access_W = (\<lambda>p. True), access_X = (\<lambda>p. True),
               path_exists = (\<lambda>p. True)\<rparr>, invoked = []\<rparr>)"
proof -
  let ?cfg = "\<lambda>s. if s = ''GDAL/OGR''
           then Some (\<lambda>opt. if opt = ''PATH_OF_GDAL_WARP'' then Some ''/usr/bin/gdalwarp'' else None)
           else None"
  let ?w = "\<lparr>files = \<lparr>path_isdir = (\<lambda>p. True), access_W = (\<lambda>p. True), access_X = (\<lambda>p. True),
               path_exists = (\<lambda>p. True)\<rparr>, invoked = []\<rparr>"
  have pre: "(0 :: real) \<le> 0 \<or> (10 :: real) \<le> 0" by simp
  have cfg: "config_get ?cfg ''GDAL/OGR'' ''PATH_OF_GDAL_WARP'' = Inr ''/usr/bin/gdalwarp''"
    by (simp add: config_get_def)
  from resampleRaster_invalid_resolution
         [OF pre, of ?cfg "\<lambda>p. p" "\<lambda>x. ''0.000000''" "\<lambda>cmd fs. (0, fs)" ?w "''/tmp''"
            "''/tmp/in.tif''" "''out.tif''" None "''EPSG:26918''" "''bilinear''"
            "''/usr/bin/gdalwarp''"]
  show ?thesis
    using cfg by (simp add: prod_eq_iff)
qed

text \<open>
  C8, the claim as stated fails: with \<open>trX = 0\<close> and a \<^verbatim>\<open>gdalwarp\<close> binary that is not
  executable, the error raised is the \<^verbatim>\<open>IOError\<close> of the earlier check, not the
  \<^verbatim>\<open>ValueError\<close>.
\<close>

theorem resampleRaster_invalid_resolution_counterexample:
  "fst (resampleRaster
     (\<lambda>s. if s = ''GDAL/OGR''
           then Some (\<lambda>opt. if opt = ''PATH_OF_GDAL_WARP'' then Some ''/usr/bin/gdalwarp'' else None)
           else None)
     (\<lambda>p. p) (\<lambda>x. ''0.000000'') (\<lambda>cmd fs. (0, fs))
     \<lparr>files = \<lparr>path_isdir = (\<lambda>p. True), access_W = (\<lambda>p. True), access_X = (\<lambda>p. False),
               path_exists = (\<lambda>p. False)\<rparr>, invoked = []\<rparr>
     ''/tmp'' ''/tmp/in.tif'' ''out.tif'' None ''EPSG:26918'' 0 10 ''bilinear'')
   = Inl (IOError EACCES ''The gdalwarp binary at /usr/bin/gdalwarp is not executable'')
   \<and> fst (resampleRaster
     (\<lambda>s. if s = ''GDAL/OGR''
           then Some (\<lambda>opt. if opt = ''PATH_OF_GDAL_WARP'' then Some ''/usr/bin/gdalwarp'' else None)
           else None)
     (\<lambda>p. p) (\<lambda>x. ''0.000000'') (\<lambda>cmd fs. (0, fs))
     \<lparr>files = \<lparr>path_isdir = (\<lambda>p. True), access_W = (\<lambda>p. True), access_X = (\<lambda>p. False),
               path_exists = (\<lambda>p. False)\<rparr>, invoked = []\<rparr>
     ''/tmp'' ''/tmp/in.tif'' ''out.tif'' None ''EPSG:26918'' 0 10 ''bilinear'')
   \<noteq> Inl (ValueError ''trX must be > 0.0'')"
  by (simp add: resampleRaster_def config_get_def)

text \<open>
  C1. What the producers of bounding boxes guarantee. A box returned by
  \<^verbatim>\<open>bboxFromString\<close> or \<^verbatim>\<open>getBoundingBoxForShapefile\<close> has \<open>srs = 'EPSG:4326'\<close>, of the
  form \<open>EPSG:<code>\<close>; \<^verbatim>\<open>bufferBoundingBox\<close> leaves \<open>srs\<close> as it is; \<^verbatim>\<open>tileBoundingBox\<close>
  returns the box itself when its area does not exceed the threshold. The order
  \<open>minX \<le> maxX\<close>, \<open>minY \<le> maxY\<close> is not enforced: \<^verbatim>\<open>bboxFromString\<close> returns the four
  numbers in the order given; buffering by \<open>d \<ge> 0\<close> keeps an ordered box with latitudes
  in \<open>[-90, 90]\<close> ordered when no longitude wraps (\<open>minX - d \<ge> -180\<close> and
  \<open>maxX + d \<le> 180\<close>); the extent of a shapefile, unbuffered, is ordered when the first
  layer has a feature whose projected envelope is ordered.
\<close>

theorem bbox_producers:
  "(bboxFromString pyfloat s = Inr r
      \<longrightarrow> srs r = ''EPSG:4326'' \<and> isEPSGString (srs r)
          \<and> float_item pyfloat (str_split s) 0 = Inr (minX r)
          \<and> float_item pyfloat (str_split s) 1 = Inr (minY r)
          \<and> float_item pyfloat (str_split s) 2 = Inr (maxX r)
          \<and> float_item pyfloat (str_split s) 3 = Inr (maxY r))
   \<and> (getBoundingBoxForShapefile tr ds buffer = Inr r'
      \<longrightarrow> srs r' = ''EPSG:4326'' \<and> isEPSGString (srs r'))
   \<and> srs (bufferBoundingBox b d) = srs b
   \<and> (0 \<le> d \<and> minX b \<le> maxX b \<and> minY b \<le> maxY b \<and> - 90 \<le> minY b \<and> maxY b \<le> 90
        \<and> - 180 \<le> minX b - d \<and> maxX b + d \<le> 180
      \<longrightarrow> minX (bufferBoundingBox b d) \<le> maxX (bufferBoundingBox b d)
          \<and> minY (bufferBoundingBox b d) \<le> maxY (bufferBoundingBox b d))
   \<and> (srs b = ''EPSG:4326'' \<and> PolygonArea (areaPoints b) \<le> threshold
      \<longrightarrow> tileBoundingBox PolygonArea g fuel b threshold = Some (Inr [b]))
   \<and> ((\<exists>f \<in> set (features l). ordered_envelope (tr (srsProj4 l) ''EPSG:4326'') f)
      \<longrightarrow> (\<exists>q. getBoundingBoxForShapefile tr (l # ls) 0 = Inr q
                \<and> minX q \<le> maxX q \<and> minY q \<le> maxY q))"
proof -
  have p1: "bboxFromString pyfloat s = Inr r
      \<longrightarrow> srs r = ''EPSG:4326'' \<and> isEPSGString (srs r)
          \<and> float_item pyfloat (str_split s) 0 = Inr (minX r)
          \<and> float_item pyfloat (str_split s) 1 = Inr (minY r)
          \<and> float_item pyfloat (str_split s) 2 = Inr (maxX r)
          \<and> float_item pyfloat (str_split s) 3 = Inr (maxY r)"
    using bboxFromString_fields [of pyfloat s r] isEPSGString_WGS84 by simp
  have p2: "getBoundingBoxForShapefile tr ds buffer = Inr r'
      \<longrightarrow> srs r' = ''EPSG:4326'' \<and> isEPSGString (srs r')"
    using getBoundingBoxForShapefile_srs [of tr ds buffer r'] isEPSGString_WGS84 by simp
  have p4: "0 \<le> d \<and> minX b \<le> maxX b \<and> minY b \<le> maxY b \<and> - 90 \<le> minY b \<and> maxY b \<le> 90
        \<and> - 180 \<le> minX b - d \<and> maxX b + d \<le> 180
      \<longrightarrow> minX (bufferBoundingBox b d) \<le> maxX (bufferBoundingBox b d)
          \<and> minY (bufferBoundingBox b d) \<le> maxY (bufferBoundingBox b d)"
    using bufferBoundingBox_ordered [of d b] by blast
  have p5: "srs b = ''EPSG:4326'' \<and> PolygonArea (areaPoints b) \<le> threshold
      \<longrightarrow> tileBoundingBox PolygonArea g fuel b threshold = Some (Inr [b])"
    using tileBoundingBox_no_tiling [of b PolygonArea threshold g fuel] by blast
  have p6: "(\<exists>f \<in> set (features l). ordered_envelope (tr (srsProj4 l) ''EPSG:4326'') f)
      \<longrightarrow> (\<exists>q. getBoundingBoxForShapefile tr (l # ls) 0 = Inr q
                \<and> minX q \<le> maxX q \<and> minY q \<le> maxY q)"
    using getBoundingBoxForShapefile_ordered [of l tr ls] by blast
  from p1 p2 bufferBoundingBox_srs [of b d] p4 p5 p6 show ?thesis
    by (intro conjI)
qed

theorem bbox_producers_witness:
  "bboxFromString
     (\<lambda>t. if t = ''1'' then Inr 1 else if t = ''2'' then Inr 2 else if t = ''3'' then Inr 3
          else if t = ''4'' then Inr 4 else Inl (ValueError ''invalid literal for float()''))
     ''1 2  3 4''
     = Inr \<lparr>minX = 1, minY = 2, maxX = 3, maxY = 4, srs = ''EPSG:4326''\<rparr>
   \<and> isEPSGString (srs \<lparr>minX = 1, minY = 2, maxX = 3, maxY = 4, srs = ''EPSG:4326''\<rparr>)
   \<and> minX (bufferBoundingBox \<lparr>minX = 1, minY = 2, maxX = 3, maxY = 4, srs = ''EPSG:4326''\<rparr> 1)
       \<le> maxX (bufferBoundingBox \<lparr>minX = 1, minY = 2, maxX = 3, maxY = 4, srs = ''EPSG:4326''\<rparr> 1)
   \<and> minY (bufferBoundingBox \<lparr>minX = 1, minY = 2, maxX = 3, maxY = 4, srs = ''EPSG:4326''\<rparr> 1)
       \<le> maxY (bufferBoundingBox \<lparr>minX = 1, minY = 2, maxX = 3, maxY = 4, srs = ''EPSG:4326''\<rparr> 1)
   \<and> tileBoundingBox (\<lambda>points. 5) module_globals 0
         \<lparr>minX = 1, minY = 2, maxX = 3, maxY = 4, srs = ''EPSG:4326''\<rparr> 10
       = Some (Inr [\<lparr>minX = 1, minY = 2, maxX = 3, maxY = 4, srs = ''EPSG:4326''\<rparr>])
   \<and> (\<exists>q. getBoundingBoxForShapefile (\<lambda>s t x y. (x, y))
              [\<lparr>layerName = ''catchment'', srsProj4 = ''+proj=longlat +datum=WGS84 +no_defs'',
                srsAuthority = ''EPSG:4326'', fieldDefns = [],
                features = [\<lparr>envelope = (1, 3, 2, 4), point = (0, 0)\<rparr>]\<rparr>] 0 = Inr q
            \<and> minX q \<le> maxX q \<and> minY q \<le> maxY q)"
proof -
  let ?pf = "\<lambda>t. if t = ''1'' then Inr 1 else if t = ''2'' then Inr 2 else if t = ''3'' then Inr 3
          else if t = ''4'' then Inr 4 else Inl (ValueError ''invalid literal for float()'')"
  let ?b = "\<lparr>minX = 1, minY = 2, maxX = 3, maxY = 4, srs = ''EPSG:4326''\<rparr>"
  let ?l = "\<lparr>layerName = ''catchment'', srsProj4 = ''+proj=longlat +datum=WGS84 +no_defs'',
             srsAuthority = ''EPSG:4326'', fieldDefns = [],
             features = [\<lparr>envelope = (1, 3, 2, 4), point = (0, 0)\<rparr>]\<rparr>"
  let ?tr = "\<lambda>(s :: string) (t :: string) (x :: real) (y :: real). (x, y)"
  have h1: "bboxFromString ?pf ''1 2  3 4'' = Inr ?b"
    by (simp add: bboxFromString_def str_split_def isspace_def float_item_def)
  have h4: "(0 :: real) \<le> 1 \<and> minX ?b \<le> maxX ?b \<and> minY ?b \<le> maxY ?b \<and> - 90 \<le> minY ?b
            \<and> maxY ?b \<le> 90 \<and> - 180 \<le> minX ?b - 1 \<and> maxX ?b + 1 \<le> 180"
    by simp
  have h5: "srs ?b = ''EPSG:4326'' \<and> (\<lambda>points :: (real \<times> real) list. 5 :: real) (areaPoints ?b) \<le> 10"
    by simp
  have h6: "\<exists>f \<in> set (features ?l). ordered_envelope (?tr (srsProj4 ?l) ''EPSG:4326'') f"
    by (simp add: ordered_envelope_def)
  note T = bbox_producers [where pyfloat = ?pf and s = "''1 2  3 4''" and r = ?b and b = ?b
             and d = 1 and PolygonArea = "\<lambda>points. 5" and threshold = 10
             and g = module_globals and fuel = 0 and l = ?l and ls = "[]" and tr = ?tr]
  from T h1 have c1: "isEPSGString (srs ?b)" by blast
  from T h4 have c4: "minX (bufferBoundingBox ?b 1) \<le> maxX (bufferBoundingBox ?b 1)
                      \<and> minY (bufferBoundingBox ?b 1) \<le> maxY (bufferBoundingBox ?b 1)"
    by blast
  from T h5 have c5: "tileBoundingBox (\<lambda>points. 5) module_globals 0 ?b 10 = Some (Inr [?b])"
    by blast
  from T h6 have c6: "\<exists>q. getBoundingBoxForShapefile ?tr [?l] 0 = Inr q
                          \<and> minX q \<le> maxX q \<and> minY q \<le> maxY q"
    by blast
  from h1 c1 c4 c5 c6 show ?thesis by (intro conjI) simp_all
qed

text \<open>
  C1, the claim as stated fails: buffering the ordered WGS84 box
  \<open>(-179.5, 0, -179, 1)\<close> by one degree wraps the west edge to \<open>179.5\<close>, east of the
  east edge \<open>-178\<close>.
\<close>

theorem bufferBoundingBox_wrap_counterexample:
  "bufferBoundingBox \<lparr>minX = - 179.5, minY = 0, maxX = - 179, maxY = 1, srs = ''EPSG:4326''\<rparr> 1
     = \<lparr>minX = 179.5, minY = - 1, maxX = - 178, maxY = 2, srs = ''EPSG:4326''\<rparr>
   \<and> \<not> minX (bufferBoundingBox
               \<lparr>minX = - 179.5, minY = 0, maxX = - 179, maxY = 1, srs = ''EPSG:4326''\<rparr> 1)
       \<le> maxX (bufferBoundingBox
               \<lparr>minX = - 179.5, minY = 0, maxX = - 179, maxY = 1, srs = ''EPSG:4326''\<rparr> 1)"
  by (simp add: bufferBoundingBox_def Let_def)

end
